theory Spec2Isabelle
  imports Main
begin

section \<open>The \<open>syncthing generate\<close> subcommand (cmd/syncthing/generate/generate.go)\<close>

text \<open>
  The file holds three functions: \<open>CLI.Run\<close>, \<open>Generate\<close> and
  \<open>updateGUIAuthentication\<close>. Everything else they call (path expansion, the
  certificate loader and generator, the configuration loader, the configuration
  wrapper with its \<open>Serve\<close>, \<open>Modify\<close> and \<open>Save\<close>, the password hasher) lives in
  other packages. Those collaborators are parameters of the model: a record \<open>world\<close>
  gives, for each of them, what it returns, and what standard input holds. The
  buffered reader of Go's library, which \<open>Run\<close> puts on standard input, is modelled
  as the library defines it. What the three functions do to the outside is recorded as a list of
  events, in program order: one event for each call of a collaborator and one for
  each line written with \<open>log.Println\<close>.
\<close>

subsection \<open>Errors\<close>

text \<open>
  A Go \<open>error\<close> value. \<open>Error s\<close> is an error with message \<open>s\<close> (any error of a
  collaborator, or \<open>fmt.Errorf\<close> without \<open>%w\<close>); \<open>Errorf l e\<close> is
  \<open>fmt.Errorf("l: %w", e)\<close>, the error \<open>e\<close> wrapped with the stage label \<open>l\<close>.
  \<open>IndexOutOfRange\<close> stands for the run-time panic of \<open>cert.Certificate[0]\<close> on an
  empty chain. A returned \<open>nil\<close> is \<open>None\<close>.
\<close>

datatype error = Error string | Errorf string error | IndexOutOfRange

subsection \<open>Data\<close>

text \<open>\<open>config.GUIConfiguration\<close>: the two fields this file reads and writes. Further
  fields of the Go struct are the extension part of the record.\<close>

record GUIConfiguration =
  User :: string
  Password :: string

text \<open>\<open>config.Configuration\<close>, of which only the GUI sub-record is touched here.\<close>

record Configuration =
  GUI :: GUIConfiguration

text \<open>\<open>tls.Certificate\<close>: the chain of encoded certificates.\<close>

record tls_Certificate =
  Certificate :: "string list"

type_synonym DeviceID = string

text \<open>The three entries of package \<open>locations\<close> used by \<open>Generate\<close>.\<close>

datatype location = CertFile | KeyFile | ConfigFile

text \<open>\<open>CLI\<close> with the fields of the embedded \<open>cmdutil.CommonOptions\<close> that \<open>Run\<close> uses.\<close>

record CLI =
  HideConsole :: bool
  HomeDir :: string
  ConfDir :: string
  NoDefaultFolder :: bool
  SkipPortProbing :: bool
  GUIUser :: string
  GUIPassword :: string

subsection \<open>Events\<close>

text \<open>An operand of \<open>log.Println\<close>: a string or a device identifier.\<close>

datatype operand = Str string | Dev DeviceID

datatype event =
    CallSetFlags
  | CallHideConsole
  | CallGetBaseDir
  | CallReadLine
  | CallGenerate string string string bool bool
  | CallExpandTilde string
  | CallEnsureDir string
  | CallSetBaseDir string
  | CallLoadX509KeyPair string string
  | CallGenerateCertificate string string
  | CallNewDeviceID string
  | CallLoad string DeviceID
  | CallDefaultConfig string DeviceID bool bool
  | CallServe
  | CallModify
  | CallHashAndSetPassword string
  | CallWait
  | CallSave Configuration
  | CallCancel
  | Println "operand list"

subsection \<open>Standard input and the buffered reader\<close>

text \<open>
  Standard input: the bytes it delivers, and the error its \<open>Read\<close> returns once they
  are used up (\<open>io.EOF\<close> at the end of the input, or an I/O error).
\<close>

record stdin =
  content :: string
  read_error :: error

definition LF :: char where
  "LF = CHR 0x0A"

definition CR :: char where
  "CR = CHR 0x0D"

text \<open>\<open>bufio.NewReader\<close> makes a reader with a buffer of \<open>defaultBufSize\<close> bytes.\<close>

definition defaultBufSize :: nat where
  "defaultBufSize = 4096"

text \<open>
  How \<open>bufio.Reader.ReadSlice('\n')\<close> ends, on a fresh reader: the delimiter was
  found in the buffer; the buffer filled up without one (\<open>ErrBufferFull\<close>); or the
  underlying \<open>Read\<close> returned an error first.
\<close>

datatype slice_end = Delim | BufferFull | ReadError error

text \<open>
  \<open>ReadSlice\<close> of package \<open>bufio\<close> (Go's standard library), first call on a fresh
  reader with a buffer of \<open>n\<close> bytes. It fills the buffer until it holds the
  delimiter, or the input has reported its error, or the buffer is full, and checks
  in that order; so the slice is the input up to and with the first line feed
  when that lies within the first \<open>n\<close> bytes, otherwise the whole input when it
  is shorter than the buffer, otherwise the first \<open>n\<close> bytes.
\<close>

definition ReadSlice :: "nat \<Rightarrow> stdin \<Rightarrow> string \<times> slice_end" where
  "ReadSlice n inp =
     (if length (takeWhile (\<lambda>c. c \<noteq> LF) (content inp)) < n
         \<and> length (takeWhile (\<lambda>c. c \<noteq> LF) (content inp)) < length (content inp)
      then (take (Suc (length (takeWhile (\<lambda>c. c \<noteq> LF) (content inp)))) (content inp), Delim)
      else if length (content inp) < n
      then (content inp, ReadError (read_error inp))
      else (take n (content inp), BufferFull))"

text \<open>The end of \<open>ReadLine\<close>: a final line feed is dropped, and a carriage return
  before it.\<close>

definition dropLineEnd :: "string \<Rightarrow> string" where
  "dropLineEnd line =
     (if line \<noteq> [] \<and> last line = LF
      then (if length line > 1 \<and> line ! (length line - 2) = CR
            then take (length line - 2) line
            else take (length line - 1) line)
      else line)"

text \<open>
  \<open>bufio.Reader.ReadLine\<close>: the line, \<open>isPrefix\<close> and the error. On a full buffer it
  returns the buffer (less a final carriage return) with \<open>isPrefix\<close> set and no
  error. An empty slice comes back with the error of \<open>ReadSlice\<close>. Otherwise the
  error is dropped and the slice is returned without its line end.
\<close>

definition ReadLine :: "nat \<Rightarrow> stdin \<Rightarrow> string \<times> bool \<times> error option" where
  "ReadLine n inp =
     (case ReadSlice n inp of
        (line, BufferFull) \<Rightarrow>
          (if line \<noteq> [] \<and> last line = CR then (butlast line, True, None)
           else (line, True, None))
      | (line, Delim) \<Rightarrow>
          (if line = [] then ([], False, None) else (dropLineEnd line, False, None))
      | (line, ReadError err) \<Rightarrow>
          (if line = [] then ([], False, Some err) else (dropLineEnd line, False, None)))"

subsection \<open>The collaborators\<close>

text \<open>
  What \<open>cfg.Modify\<close> does with the closure it is handed. \<open>Applied\<close>: the closure is
  run by the serving goroutine and \<open>Modify\<close> returns a waiter and no error.
  \<open>Rejected e\<close>: \<open>Modify\<close> returns the error \<open>e\<close> and the closure was not run.
  \<open>AppliedThenFailed e\<close>: the closure was run and \<open>Modify\<close> returns the error \<open>e\<close>
  all the same.
\<close>

datatype modify_outcome = Applied | Rejected error | AppliedThenFailed error

text \<open>
  One field for each collaborator, named after its Go package. \<open>locations_Get\<close>
  takes the base directory that \<open>locations.SetBaseDir\<close> has installed.
  \<open>os_Stdin\<close> is standard input as the process finds it. \<open>bcrypt_hash\<close> is the
  hashing primitive behind \<open>HashAndSetPassword\<close>.
\<close>

record world =
  locations_GetBaseDir :: string
  os_Stdin :: stdin
  fs_ExpandTilde :: "string \<Rightarrow> error + string"
  syncthing_EnsureDir :: "string \<Rightarrow> error option"
  locations_Get :: "string \<Rightarrow> location \<Rightarrow> string"
  tls_LoadX509KeyPair :: "string \<Rightarrow> string \<Rightarrow> error + tls_Certificate"
  syncthing_GenerateCertificate :: "string \<Rightarrow> string \<Rightarrow> error + tls_Certificate"
  protocol_NewDeviceID :: "string \<Rightarrow> DeviceID"
  config_Load :: "string \<Rightarrow> DeviceID \<Rightarrow> error + Configuration"
  fs_IsNotExist :: "error \<Rightarrow> bool"
  syncthing_DefaultConfig :: "string \<Rightarrow> DeviceID \<Rightarrow> bool \<Rightarrow> bool \<Rightarrow> error + Configuration"
  cfg_Modify :: modify_outcome
  bcrypt_hash :: "string \<Rightarrow> error + string"
  cfg_Save :: "Configuration \<Rightarrow> error option"

subsection \<open>updateGUIAuthentication\<close>

text \<open>
  Modelled from the spec: \<open>GUIConfiguration.HashAndSetPassword\<close> is a method of
  package \<open>config\<close>, which is not among the sources. The spec says it computes a
  one-way hash of the new password and replaces the stored hash, and fails when the
  hashing primitive fails; on failure nothing is stored.
\<close>

definition HashAndSetPassword ::
  "(string \<Rightarrow> error + string) \<Rightarrow> 'a GUIConfiguration_scheme \<Rightarrow> string
    \<Rightarrow> error option \<times> 'a GUIConfiguration_scheme" where
  "HashAndSetPassword hash guiCfg password =
     (case hash password of
        Inl err \<Rightarrow> (Some err, guiCfg)
      | Inr h \<Rightarrow> (None, guiCfg\<lparr>Password := h\<rparr>))"

text \<open>Lines 125 to 128: the user name.\<close>

definition updateUser ::
  "'a GUIConfiguration_scheme \<Rightarrow> string \<Rightarrow> 'a GUIConfiguration_scheme \<times> event list" where
  "updateUser guiCfg guiUser =
     (if guiUser \<noteq> [] \<and> User guiCfg \<noteq> guiUser
      then (guiCfg\<lparr>User := guiUser\<rparr>,
            [Println [Str ''Updated GUI authentication user name:'', Str guiUser]])
      else (guiCfg, []))"

text \<open>Lines 130 to 136: the password. The result is the returned error, the GUI
  record as the function leaves it, and the events.\<close>

definition updatePassword ::
  "(string \<Rightarrow> error + string) \<Rightarrow> 'a GUIConfiguration_scheme \<Rightarrow> string
    \<Rightarrow> error option \<times> 'a GUIConfiguration_scheme \<times> event list" where
  "updatePassword hash guiCfg guiPassword =
     (if guiPassword \<noteq> [] \<and> Password guiCfg \<noteq> guiPassword
      then (case HashAndSetPassword hash guiCfg guiPassword of
              (Some err, g) \<Rightarrow>
                (Some (Errorf ''failed to set GUI authentication password'' err), g,
                 [CallHashAndSetPassword guiPassword])
            | (None, g) \<Rightarrow>
                (None, g,
                 [CallHashAndSetPassword guiPassword,
                  Println [Str ''Updated GUI authentication password.'']]))
      else (None, guiCfg, []))"

definition updateGUIAuthentication ::
  "(string \<Rightarrow> error + string) \<Rightarrow> 'a GUIConfiguration_scheme \<Rightarrow> string \<Rightarrow> string
    \<Rightarrow> error option \<times> 'a GUIConfiguration_scheme \<times> event list" where
  "updateGUIAuthentication hash guiCfg guiUser guiPassword =
     (case updateUser guiCfg guiUser of
        (g1, t1) \<Rightarrow>
          (case updatePassword hash g1 guiPassword of
             (err, g2, t2) \<Rightarrow> (err, g2, t1 @ t2)))"

subsection \<open>Generate\<close>

text \<open>
  Lines 78 to 90, the identity: load the key pair from the two locations below the
  directory \<open>dir\<close>; when loading succeeds, warn; when it returns an error, whatever
  the error, call \<open>syncthing.GenerateCertificate\<close> on the same two locations. Then
  derive the device identifier from the first certificate of the chain and print it.
\<close>

definition loadOrGenerate :: "world \<Rightarrow> string \<Rightarrow> string \<Rightarrow> (error + tls_Certificate) \<times> event list" where
  "loadOrGenerate w certFile keyFile =
     (case tls_LoadX509KeyPair w certFile keyFile of
        Inr cert \<Rightarrow>
          (Inr cert,
           [CallLoadX509KeyPair certFile keyFile,
            Println [Str ''WARNING: Key exists; will not overwrite.'']])
      | Inl _ \<Rightarrow>
          (case syncthing_GenerateCertificate w certFile keyFile of
             Inl err \<Rightarrow>
               (Inl (Errorf ''create certificate'' err),
                [CallLoadX509KeyPair certFile keyFile, CallGenerateCertificate certFile keyFile])
           | Inr cert \<Rightarrow>
               (Inr cert,
                [CallLoadX509KeyPair certFile keyFile, CallGenerateCertificate certFile keyFile])))"

definition Generate_identity :: "world \<Rightarrow> string \<Rightarrow> (error + DeviceID) \<times> event list" where
  "Generate_identity w dir =
     (case loadOrGenerate w (locations_Get w dir CertFile) (locations_Get w dir KeyFile) of
        (Inl err, t) \<Rightarrow> (Inl err, t)
      | (Inr cert, t) \<Rightarrow>
          (case Certificate cert of
             [] \<Rightarrow> (Inl IndexOutOfRange, t)
           | der # _ \<Rightarrow>
               (Inr (protocol_NewDeviceID w der),
                t @ [CallNewDeviceID der,
                     Println [Str ''Device ID:'', Dev (protocol_NewDeviceID w der)]])))"

text \<open>
  Lines 92 to 100, the configuration: load it; when the loader's error satisfies
  \<open>fs.IsNotExist\<close>, build the default configuration; any other error is returned
  with the label \<open>load config\<close>. (\<open>fs.IsNotExist(nil)\<close> is false, so a successful
  load takes neither branch.)
\<close>

definition Generate_config ::
  "world \<Rightarrow> string \<Rightarrow> DeviceID \<Rightarrow> bool \<Rightarrow> bool \<Rightarrow> (error + Configuration) \<times> event list" where
  "Generate_config w cfgFile myID noDefaultFolder skipPortProbing =
     (case config_Load w cfgFile myID of
        Inr cfg \<Rightarrow> (Inr cfg, [CallLoad cfgFile myID])
      | Inl err \<Rightarrow>
          (if fs_IsNotExist w err
           then (case syncthing_DefaultConfig w cfgFile myID noDefaultFolder skipPortProbing of
                   Inl err' \<Rightarrow>
                     (Inl (Errorf ''create config'' err'),
                      [CallLoad cfgFile myID,
                       CallDefaultConfig cfgFile myID noDefaultFolder skipPortProbing])
                 | Inr cfg \<Rightarrow>
                     (Inr cfg,
                      [CallLoad cfgFile myID,
                       CallDefaultConfig cfgFile myID noDefaultFolder skipPortProbing]))
           else (Inl (Errorf ''load config'' err), [CallLoad cfgFile myID])))"

text \<open>
  Lines 102 to 121: start the serving goroutine, hand the closure around
  \<open>updateGUIAuthentication\<close> to \<open>cfg.Modify\<close>, wait, save. The goroutine runs the
  closure at some moment before \<open>waiter.Wait\<close> returns; the model puts the closure's
  events between the call of \<open>Modify\<close> and the call of \<open>Wait\<close>. The deferred
  \<open>cancel\<close> runs on every return.
\<close>

definition Generate_modify :: "world \<Rightarrow> Configuration \<Rightarrow> string \<Rightarrow> string \<Rightarrow> error option \<times> event list" where
  "Generate_modify w cfg guiUser guiPassword =
     (case updateGUIAuthentication (bcrypt_hash w) (GUI cfg) guiUser guiPassword of
        (updateErr, gui', tu) \<Rightarrow>
          (case cfg_Modify w of
             Rejected err \<Rightarrow>
               (Some (Errorf ''modify config'' err), [CallServe, CallModify, CallCancel])
           | AppliedThenFailed err \<Rightarrow>
               (Some (Errorf ''modify config'' err), [CallServe, CallModify] @ tu @ [CallCancel])
           | Applied \<Rightarrow>
               (case updateErr of
                  Some e \<Rightarrow> (Some e, [CallServe, CallModify] @ tu @ [CallWait, CallCancel])
                | None \<Rightarrow>
                    (case cfg_Save w (cfg\<lparr>GUI := gui'\<rparr>) of
                       Some err \<Rightarrow>
                         (Some (Errorf ''save config'' err),
                          [CallServe, CallModify] @ tu
                            @ [CallWait, CallSave (cfg\<lparr>GUI := gui'\<rparr>), CallCancel])
                     | None \<Rightarrow>
                         (None,
                          [CallServe, CallModify] @ tu
                            @ [CallWait, CallSave (cfg\<lparr>GUI := gui'\<rparr>), CallCancel])))))"

text \<open>Lines 92 to 121, from the device identifier on.\<close>

definition Generate_from_identity ::
  "world \<Rightarrow> string \<Rightarrow> DeviceID \<Rightarrow> string \<Rightarrow> string \<Rightarrow> bool \<Rightarrow> bool \<Rightarrow> error option \<times> event list" where
  "Generate_from_identity w dir myID guiUser guiPassword noDefaultFolder skipPortProbing =
     (case Generate_config w (locations_Get w dir ConfigFile) myID noDefaultFolder skipPortProbing of
        (Inl err, tc) \<Rightarrow> (Some err, tc)
      | (Inr cfg, tc) \<Rightarrow>
          (case Generate_modify w cfg guiUser guiPassword of
             (r, tm) \<Rightarrow> (r, tc @ tm)))"

text \<open>Lines 78 to 121, from the configuration directory on.\<close>

definition Generate_in_dir ::
  "world \<Rightarrow> string \<Rightarrow> string \<Rightarrow> string \<Rightarrow> bool \<Rightarrow> bool \<Rightarrow> error option \<times> event list" where
  "Generate_in_dir w dir guiUser guiPassword noDefaultFolder skipPortProbing =
     (case Generate_identity w dir of
        (Inl err, ti) \<Rightarrow> (Some err, ti)
      | (Inr myID, ti) \<Rightarrow>
          (case Generate_from_identity w dir myID guiUser guiPassword noDefaultFolder skipPortProbing of
             (r, t) \<Rightarrow> (r, ti @ t)))"

text \<open>The whole function: the returned error and the events.\<close>

definition Generate ::
  "world \<Rightarrow> string \<Rightarrow> string \<Rightarrow> string \<Rightarrow> bool \<Rightarrow> bool \<Rightarrow> error option \<times> event list" where
  "Generate w confDir guiUser guiPassword noDefaultFolder skipPortProbing =
     (case fs_ExpandTilde w confDir of
        Inl err \<Rightarrow> (Some err, [CallExpandTilde confDir])
      | Inr dir \<Rightarrow>
          (case syncthing_EnsureDir w dir of
             Some err \<Rightarrow> (Some err, [CallExpandTilde confDir, CallEnsureDir dir])
           | None \<Rightarrow>
               (case Generate_in_dir w dir guiUser guiPassword noDefaultFolder skipPortProbing of
                  (r, t) \<Rightarrow>
                    (r, [CallExpandTilde confDir, CallEnsureDir dir, CallSetBaseDir dir] @ t))))"

subsection \<open>CLI.Run\<close>

text \<open>Lines 41 to 49: the configuration directory. \<open>None\<close> when both options are given.\<close>

definition resolveConfDir :: "world \<Rightarrow> CLI \<Rightarrow> (CLI \<times> event list) option" where
  "resolveConfDir w c =
     (if HomeDir c \<noteq> [] \<and> ConfDir c \<noteq> [] then None
      else (case (if HomeDir c \<noteq> [] then c\<lparr>ConfDir := HomeDir c\<rparr> else c) of
              c1 \<Rightarrow>
                (if ConfDir c1 = []
                 then Some (c1\<lparr>ConfDir := locations_GetBaseDir w\<rparr>, [CallGetBaseDir])
                 else Some (c1, []))))"

text \<open>Lines 51 to 59: the password, read with a new reader on standard input. The
  third result of \<open>ReadLine\<close> decides; its second result, \<open>isPrefix\<close>, is discarded
  by the code.\<close>

definition resolvePassword :: "world \<Rightarrow> CLI \<Rightarrow> (error + CLI) \<times> event list" where
  "resolvePassword w c =
     (if GUIPassword c = ''-''
      then (case ReadLine defaultBufSize (os_Stdin w) of
              (password, _, Some err) \<Rightarrow>
                (Inl (Errorf ''failed reading GUI password'' err), [CallReadLine])
            | (password, _, None) \<Rightarrow>
                (Inr (c\<lparr>GUIPassword := password\<rparr>), [CallReadLine]))
      else (Inr c, []))"

text \<open>Lines 61 to 64.\<close>

definition runGenerate :: "world \<Rightarrow> CLI \<Rightarrow> error option \<times> event list" where
  "runGenerate w c =
     (case Generate w (ConfDir c) (GUIUser c) (GUIPassword c) (NoDefaultFolder c) (SkipPortProbing c) of
        (Some err, t) \<Rightarrow>
          (Some (Errorf ''failed to generate config and keys'' err),
           CallGenerate (ConfDir c) (GUIUser c) (GUIPassword c) (NoDefaultFolder c) (SkipPortProbing c) # t)
      | (None, t) \<Rightarrow>
          (None,
           CallGenerate (ConfDir c) (GUIUser c) (GUIPassword c) (NoDefaultFolder c) (SkipPortProbing c) # t))"

text \<open>The whole method: the returned error, the receiver as \<open>Run\<close> leaves it, and
  the events.\<close>

definition Run :: "world \<Rightarrow> CLI \<Rightarrow> error option \<times> CLI \<times> event list" where
  "Run w c =
     (case (CallSetFlags # (if HideConsole c then [CallHideConsole] else [])) of
        t0 \<Rightarrow>
          (case resolveConfDir w c of
             None \<Rightarrow> (Some (Error ''--home must not be used together with --config''), c, t0)
           | Some (c1, t1) \<Rightarrow>
               (case resolvePassword w c1 of
                  (Inl err, t2) \<Rightarrow> (Some err, c1, t0 @ t1 @ t2)
                | (Inr c2, t2) \<Rightarrow>
                    (case runGenerate w c2 of
                       (r, t3) \<Rightarrow> (r, c2, t0 @ t1 @ t2 @ t3)))))"

subsection \<open>Example environments\<close>

text \<open>
  An environment in which every collaborator succeeds: the key pair and the
  configuration exist, the hasher prefixes its input, and standard input holds the
  line \<open>secretpass\<close> and a line feed.
\<close>

definition load_ok :: "string \<Rightarrow> string \<Rightarrow> error + tls_Certificate" where
  "load_ok certFile keyFile = Inr \<lparr>Certificate = [''DER-old'']\<rparr>"

definition generate_ok :: "string \<Rightarrow> string \<Rightarrow> error + tls_Certificate" where
  "generate_ok certFile keyFile = Inr \<lparr>Certificate = [''DER-new'']\<rparr>"

definition stored_config :: Configuration where
  "stored_config = \<lparr>GUI = \<lparr>User = ''admin'', Password = ''$2a$10$old''\<rparr>\<rparr>"

definition default_config :: Configuration where
  "default_config = \<lparr>GUI = \<lparr>User = [], Password = []\<rparr>\<rparr>"

definition paths :: "string \<Rightarrow> location \<Rightarrow> string" where
  "paths dir l =
     dir @ (case l of CertFile \<Rightarrow> ''/cert.pem'' | KeyFile \<Rightarrow> ''/key.pem''
            | ConfigFile \<Rightarrow> ''/config.xml'')"

definition not_exist :: "error \<Rightarrow> bool" where
  "not_exist e = (e = Error ''no such file or directory'')"

definition settled_world :: world where
  "settled_world =
     \<lparr>locations_GetBaseDir = ''/etc/syncthing'',
      os_Stdin = \<lparr>content = ''secretpass'' @ [LF], read_error = Error ''EOF''\<rparr>,
      fs_ExpandTilde = Inr,
      syncthing_EnsureDir = (\<lambda>dir. None),
      locations_Get = paths,
      tls_LoadX509KeyPair = load_ok,
      syncthing_GenerateCertificate = generate_ok,
      protocol_NewDeviceID = (\<lambda>der. ''ID-'' @ der),
      config_Load = (\<lambda>cfgFile myID. Inr stored_config),
      fs_IsNotExist = not_exist,
      syncthing_DefaultConfig = (\<lambda>cfgFile myID noDefaultFolder skipPortProbing. Inr default_config),
      cfg_Modify = Applied,
      bcrypt_hash = (\<lambda>password. Inr (''$2a$10$'' @ password)),
      cfg_Save = (\<lambda>cfg. None)\<rparr>"

text \<open>The certificate file is there but holds no PEM data: the loader fails with an
  error that is not a not-exist error.\<close>

definition malformed_cert_world :: world where
  "malformed_cert_world =
     settled_world\<lparr>tls_LoadX509KeyPair :=
       (\<lambda>certFile keyFile. Inl (Error ''tls: failed to find any PEM data in certificate input''))\<rparr>"

text \<open>No configuration file yet; and a configuration file that does not parse.\<close>

definition fresh_config_world :: world where
  "fresh_config_world =
     settled_world\<lparr>config_Load := (\<lambda>cfgFile myID. Inl (Error ''no such file or directory''))\<rparr>"

definition broken_config_world :: world where
  "broken_config_world =
     settled_world\<lparr>config_Load := (\<lambda>cfgFile myID. Inl (Error ''XML syntax error''))\<rparr>"

text \<open>The hasher fails.\<close>

definition failing_hash_world :: world where
  "failing_hash_world =
     settled_world\<lparr>bcrypt_hash := (\<lambda>password. Inl (Error ''bcrypt: out of memory''))\<rparr>"

text \<open>Standard input is closed.\<close>

definition closed_stdin_world :: world where
  "closed_stdin_world = settled_world\<lparr>os_Stdin := \<lparr>content = [], read_error = Error ''EOF''\<rparr>\<rparr>"

text \<open>Standard input holds one line of 5000 bytes; and three bytes after which the
  read fails.\<close>

definition long_line_world :: world where
  "long_line_world =
     settled_world\<lparr>os_Stdin :=
       \<lparr>content = replicate 5000 (CHR ''x'') @ [LF], read_error = Error ''EOF''\<rparr>\<rparr>"

definition broken_stdin_world :: world where
  "broken_stdin_world =
     settled_world\<lparr>os_Stdin :=
       \<lparr>content = ''sec'', read_error = Error ''read /dev/stdin: input/output error''\<rparr>\<rparr>"

text \<open>The hasher fails, and \<open>cfg.Modify\<close>, having run the closure, returns an error
  of its own.\<close>

definition failing_modify_world :: world where
  "failing_modify_world =
     failing_hash_world\<lparr>cfg_Modify := AppliedThenFailed (Error ''config rejected'')\<rparr>"

text \<open>Two command lines.\<close>

definition piped_password_cli :: CLI where
  "piped_password_cli =
     \<lparr>HideConsole = False, HomeDir = ''/srv/st'', ConfDir = [], NoDefaultFolder = True,
      SkipPortProbing = False, GUIUser = ''admin'', GUIPassword = ''-''\<rparr>"

definition conflicting_cli :: CLI where
  "conflicting_cli =
     \<lparr>HideConsole = False, HomeDir = ''/srv/st'', ConfDir = ''/srv/conf'', NoDefaultFolder = False,
      SkipPortProbing = False, GUIUser = [], GUIPassword = ''-''\<rparr>"

section \<open>Unfolding the model\<close>

lemmas example_defs =
  settled_world_def malformed_cert_world_def fresh_config_world_def broken_config_world_def
  failing_hash_world_def closed_stdin_world_def long_line_world_def broken_stdin_world_def
  failing_modify_world_def piped_password_cli_def conflicting_cli_def
  load_ok_def generate_ok_def stored_config_def default_config_def paths_def not_exist_def

lemmas Generate_defs =
  Generate_def Generate_in_dir_def Generate_identity_def loadOrGenerate_def
  Generate_from_identity_def Generate_config_def Generate_modify_def
  updateGUIAuthentication_def updateUser_def updatePassword_def HashAndSetPassword_def

lemmas Run_defs = Run_def resolveConfDir_def resolvePassword_def runGenerate_def

lemmas ReadLine_defs = ReadLine_def ReadSlice_def dropLineEnd_def defaultBufSize_def LF_def CR_def

section \<open>Properties of updateGUIAuthentication\<close>

text \<open>
  C7. With a user name that is empty or equal to the current one, and an empty
  password, \<open>updateGUIAuthentication\<close> returns the GUI record it was given (all
  fields, also those outside this file), returns no error, and writes no log line
  and calls nothing.
\<close>

theorem updateGUIAuthentication_noop:
  assumes "guiUser = [] \<or> guiUser = User guiCfg"
  shows "updateGUIAuthentication hash guiCfg guiUser [] = (None, guiCfg, [])"
  using assms
  by (auto simp: updateGUIAuthentication_def updateUser_def updatePassword_def)

theorem updateGUIAuthentication_noop_witness:
  "(''admin'' = [] \<or> ''admin'' = User \<lparr>User = ''admin'', Password = ''$2a$10$abc''\<rparr>)
   \<and> updateGUIAuthentication (\<lambda>p. Inr (''H'' @ p))
        \<lparr>User = ''admin'', Password = ''$2a$10$abc''\<rparr> ''admin'' []
      = (None, \<lparr>User = ''admin'', Password = ''$2a$10$abc''\<rparr>, [])"
proof -
  have h: "''admin'' = [] \<or> ''admin'' = User \<lparr>User = ''admin'', Password = ''$2a$10$abc''\<rparr>"
    by simp
  show ?thesis
    using h updateGUIAuthentication_noop [OF h, of "\<lambda>p. Inr (''H'' @ p)"] by simp
qed

text \<open>The events of \<open>updateGUIAuthentication\<close>: at most two log lines and one call
  of the hasher.\<close>

lemma updateGUIAuthentication_events:
  "set (snd (snd (updateGUIAuthentication hash guiCfg guiUser guiPassword)))
     \<subseteq> {Println [Str ''Updated GUI authentication user name:'', Str guiUser],
         CallHashAndSetPassword guiPassword,
         Println [Str ''Updated GUI authentication password.'']}"
  by (auto simp: updateGUIAuthentication_def updateUser_def updatePassword_def
      HashAndSetPassword_def split: sum.splits)

lemma updateGUIAuthentication_no_generate:
  "CallGenerateCertificate c k
     \<notin> set (snd (snd (updateGUIAuthentication hash guiCfg guiUser guiPassword)))"
  using updateGUIAuthentication_events [of hash guiCfg guiUser guiPassword] by auto

lemma updateGUIAuthentication_no_save:
  "CallSave c \<notin> set (snd (snd (updateGUIAuthentication hash guiCfg guiUser guiPassword)))"
  using updateGUIAuthentication_events [of hash guiCfg guiUser guiPassword] by auto

text \<open>
  C5. For a non-empty new password that differs from the stored \<open>Password\<close> field,
  \<open>updateGUIAuthentication\<close> calls the hasher on the new password, stores the hash
  the hasher returns in \<open>Password\<close> (of the record as the user-name step left it) and
  writes the line \<open>Updated GUI authentication password.\<close>; it returns no error.
  The hash is the value the hashing primitive returns, \<open>hash guiPassword = Inr h\<close>.
\<close>

theorem updateGUIAuthentication_rehash:
  assumes "guiPassword \<noteq> []" and "guiPassword \<noteq> Password guiCfg"
    and "hash guiPassword = Inr h"
  shows "updateGUIAuthentication hash guiCfg guiUser guiPassword
     = (None,
        (fst (updateUser guiCfg guiUser))\<lparr>Password := h\<rparr>,
        snd (updateUser guiCfg guiUser)
          @ [CallHashAndSetPassword guiPassword,
             Println [Str ''Updated GUI authentication password.'']])"
  using assms
  by (auto simp: updateGUIAuthentication_def updateUser_def updatePassword_def
      HashAndSetPassword_def)

theorem updateGUIAuthentication_rehash_witness:
  "''abc123'' \<noteq> [] \<and> ''abc123'' \<noteq> Password (GUI stored_config)
   \<and> bcrypt_hash settled_world ''abc123'' = Inr ''$2a$10$abc123''
   \<and> updateGUIAuthentication (bcrypt_hash settled_world) (GUI stored_config) ''admin'' ''abc123''
      = (None,
         \<lparr>User = ''admin'', Password = ''$2a$10$abc123''\<rparr>,
         [CallHashAndSetPassword ''abc123'',
          Println [Str ''Updated GUI authentication password.'']])"
proof -
  have a: "''abc123'' \<noteq> []" by simp
  have b: "''abc123'' \<noteq> Password (GUI stored_config)"
    by (simp add: stored_config_def)
  have c: "bcrypt_hash settled_world ''abc123'' = Inr ''$2a$10$abc123''"
    by (simp add: settled_world_def)
  show ?thesis
    using a b c
      updateGUIAuthentication_rehash
        [where hash = "bcrypt_hash settled_world" and guiUser = "''admin''", OF a b c]
    by (simp add: updateUser_def stored_config_def)
qed

text \<open>
  C10. When the supplied non-empty password is, as a string, equal to the stored
  \<open>Password\<close> field (the stored hash), \<open>updateGUIAuthentication\<close> does not call the
  hasher and leaves \<open>Password\<close> as it was; it returns no error.
\<close>

theorem updateGUIAuthentication_same_as_stored:
  assumes "guiPassword \<noteq> []" and "guiPassword = Password guiCfg"
  shows "fst (updateGUIAuthentication hash guiCfg guiUser guiPassword) = None
    \<and> Password (fst (snd (updateGUIAuthentication hash guiCfg guiUser guiPassword)))
        = Password guiCfg
    \<and> (\<forall>p. CallHashAndSetPassword p
          \<notin> set (snd (snd (updateGUIAuthentication hash guiCfg guiUser guiPassword))))"
  using assms
  by (auto simp: updateGUIAuthentication_def updateUser_def updatePassword_def)

theorem updateGUIAuthentication_same_as_stored_witness:
  "''$2a$10$old'' \<noteq> [] \<and> ''$2a$10$old'' = Password (GUI stored_config)
   \<and> fst (updateGUIAuthentication (bcrypt_hash settled_world) (GUI stored_config)
            ''root'' ''$2a$10$old'') = None
   \<and> Password (fst (snd (updateGUIAuthentication (bcrypt_hash settled_world) (GUI stored_config)
            ''root'' ''$2a$10$old''))) = Password (GUI stored_config)
   \<and> (\<forall>p. CallHashAndSetPassword p
         \<notin> set (snd (snd (updateGUIAuthentication (bcrypt_hash settled_world) (GUI stored_config)
            ''root'' ''$2a$10$old''))))"
proof -
  have a: "''$2a$10$old'' \<noteq> []" by simp
  have b: "''$2a$10$old'' = Password (GUI stored_config)"
    by (simp add: stored_config_def)
  show ?thesis
    using a b
      updateGUIAuthentication_same_as_stored [OF a b, of "bcrypt_hash settled_world" "''root''"]
    by simp
qed

section \<open>Properties of Generate\<close>

subsection \<open>Which events each stage can produce\<close>

lemma Generate_modify_no_generate:
  "CallGenerateCertificate c k \<notin> set (snd (Generate_modify w cfg guiUser guiPassword))"
  using updateGUIAuthentication_no_generate [of c k "bcrypt_hash w" "GUI cfg" guiUser guiPassword]
  by (auto simp: Generate_modify_def split: prod.splits modify_outcome.splits option.splits)

lemma Generate_config_events:
  "set (snd (Generate_config w cfgFile myID a b))
     \<subseteq> {CallLoad cfgFile myID, CallDefaultConfig cfgFile myID a b}"
  by (auto simp: Generate_config_def split: sum.splits)

lemma Generate_from_identity_no_generate:
  "CallGenerateCertificate c k
     \<notin> set (snd (Generate_from_identity w dir myID guiUser guiPassword a b))"
proof -
  have "CallGenerateCertificate c k
          \<notin> set (snd (Generate_config w (locations_Get w dir ConfigFile) myID a b))"
    using Generate_config_events [of w "locations_Get w dir ConfigFile" myID a b] by auto
  then show ?thesis
    using Generate_modify_no_generate [of c k w _ guiUser guiPassword]
    by (auto simp: Generate_from_identity_def case_prod_beta split: sum.splits)
qed

lemma Generate_identity_loaded:
  assumes "tls_LoadX509KeyPair w (locations_Get w dir CertFile) (locations_Get w dir KeyFile) = Inr cert"
  shows "Println [Str ''WARNING: Key exists; will not overwrite.'']
           \<in> set (snd (Generate_identity w dir))
         \<and> CallGenerateCertificate c k \<notin> set (snd (Generate_identity w dir))"
  using assms
  by (auto simp: Generate_identity_def loadOrGenerate_def split: list.splits)

lemma Generate_identity_no_save:
  "CallSave c \<notin> set (snd (Generate_identity w dir))"
  by (auto simp: Generate_identity_def loadOrGenerate_def split: sum.splits list.splits)

lemma Generate_config_no_save:
  "CallSave c \<notin> set (snd (Generate_config w cfgFile myID a b))"
  using Generate_config_events [of w cfgFile myID a b] by auto





text \<open>
  When the first two steps and the identity succeed, \<open>Generate\<close> is the rest of the
  function run after the events so far.
\<close>

lemma Generate_reaches_config:
  assumes "fs_ExpandTilde w confDir = Inr dir"
    and "syncthing_EnsureDir w dir = None"
    and "Generate_identity w dir = (Inr myID, ti)"
  shows "Generate w confDir guiUser guiPassword noDefaultFolder skipPortProbing
     = (fst (Generate_from_identity w dir myID guiUser guiPassword noDefaultFolder skipPortProbing),
        [CallExpandTilde confDir, CallEnsureDir dir, CallSetBaseDir dir] @ ti
          @ snd (Generate_from_identity w dir myID guiUser guiPassword noDefaultFolder skipPortProbing))"
  using assms by (simp add: Generate_def Generate_in_dir_def case_prod_beta)

text \<open>
  The identifier is derived from the first certificate of the chain that was
  loaded or generated.
\<close>

lemma Generate_identity_derived:
  assumes "Generate_identity w dir = (Inr myID, ti)"
  shows "\<exists>cert der rest.
           fst (loadOrGenerate w (locations_Get w dir CertFile) (locations_Get w dir KeyFile)) = Inr cert
           \<and> Certificate cert = der # rest \<and> myID = protocol_NewDeviceID w der"
  using assms
  by (auto simp: Generate_identity_def case_prod_beta split: sum.splits list.splits)

subsection \<open>The identity\<close>

text \<open>
  C2. Whenever \<open>Generate\<close> reaches the loading of the key pair and the loader
  succeeds on the certificate and key locations, \<open>Generate\<close> writes the warning
  \<open>WARNING: Key exists; will not overwrite.\<close> and never calls
  \<open>syncthing.GenerateCertificate\<close>, on any pair of paths: the one collaborator that
  writes key material is not invoked.
\<close>

theorem Generate_keeps_existing_key:
  assumes "fs_ExpandTilde w confDir = Inr dir"
    and "syncthing_EnsureDir w dir = None"
    and "tls_LoadX509KeyPair w (locations_Get w dir CertFile) (locations_Get w dir KeyFile) = Inr cert"
  shows "Println [Str ''WARNING: Key exists; will not overwrite.'']
           \<in> set (snd (Generate w confDir guiUser guiPassword noDefaultFolder skipPortProbing))
         \<and> (\<forall>c k. CallGenerateCertificate c k
               \<notin> set (snd (Generate w confDir guiUser guiPassword noDefaultFolder skipPortProbing)))"
  using assms(1,2) Generate_identity_loaded [OF assms(3)]
    Generate_from_identity_no_generate [of _ _ w dir _ guiUser guiPassword noDefaultFolder skipPortProbing]
  by (auto simp: Generate_def Generate_in_dir_def case_prod_beta split: sum.splits)

theorem Generate_keeps_existing_key_witness:
  "fs_ExpandTilde settled_world ''/srv/st'' = Inr ''/srv/st''
   \<and> syncthing_EnsureDir settled_world ''/srv/st'' = None
   \<and> tls_LoadX509KeyPair settled_world (locations_Get settled_world ''/srv/st'' CertFile)
        (locations_Get settled_world ''/srv/st'' KeyFile) = Inr \<lparr>Certificate = [''DER-old'']\<rparr>
   \<and> Println [Str ''WARNING: Key exists; will not overwrite.'']
        \<in> set (snd (Generate settled_world ''/srv/st'' ''admin'' ''pw'' False False))
   \<and> (\<forall>c k. CallGenerateCertificate c k
         \<notin> set (snd (Generate settled_world ''/srv/st'' ''admin'' ''pw'' False False)))"
proof -
  have a: "fs_ExpandTilde settled_world ''/srv/st'' = Inr ''/srv/st''"
    by (simp add: settled_world_def)
  have b: "syncthing_EnsureDir settled_world ''/srv/st'' = None"
    by (simp add: settled_world_def)
  have c: "tls_LoadX509KeyPair settled_world (locations_Get settled_world ''/srv/st'' CertFile)
        (locations_Get settled_world ''/srv/st'' KeyFile) = Inr \<lparr>Certificate = [''DER-old'']\<rparr>"
    by (simp add: settled_world_def load_ok_def)
  show ?thesis
    using a b c Generate_keeps_existing_key [OF a b c, of "''admin''" "''pw''" False False]
    by simp
qed

subsection \<open>A load failure of the key pair\<close>

text \<open>Whatever error the loader returns, the generator is called on the same two
  locations: line 81 tests \<open>err == nil\<close> only, and the \<open>else\<close> branch takes every
  error.\<close>

lemma loadOrGenerate_failed_load:
  assumes "tls_LoadX509KeyPair w certFile keyFile = Inl e"
  shows "loadOrGenerate w certFile keyFile
     = (case syncthing_GenerateCertificate w certFile keyFile of
          Inl err \<Rightarrow> Inl (Errorf ''create certificate'' err)
        | Inr cert \<Rightarrow> Inr cert,
        [CallLoadX509KeyPair certFile keyFile, CallGenerateCertificate certFile keyFile])"
  using assms by (simp add: loadOrGenerate_def split: sum.splits)

text \<open>
  C1. The claim: a load failure that is not the absence of the files is fatal, and
  the generator is never invoked in that case. The code does not do this. In
  \<open>malformed_cert_world\<close> the certificate file is there but holds no PEM data, so
  the loader fails with an error that \<open>fs.IsNotExist\<close> rejects; all the same
  \<open>Generate\<close> calls \<open>syncthing.GenerateCertificate\<close> on the certificate and key
  locations, goes on to the configuration, saves it and returns \<open>nil\<close>.
\<close>

theorem Generate_malformed_cert_regenerates:
  "tls_LoadX509KeyPair malformed_cert_world ''/srv/st/cert.pem'' ''/srv/st/key.pem''
     = Inl (Error ''tls: failed to find any PEM data in certificate input'')
   \<and> \<not> fs_IsNotExist malformed_cert_world
         (Error ''tls: failed to find any PEM data in certificate input'')
   \<and> Generate malformed_cert_world ''/srv/st'' [] [] False False
      = (None,
         [CallExpandTilde ''/srv/st'', CallEnsureDir ''/srv/st'', CallSetBaseDir ''/srv/st'',
          CallLoadX509KeyPair ''/srv/st/cert.pem'' ''/srv/st/key.pem'',
          CallGenerateCertificate ''/srv/st/cert.pem'' ''/srv/st/key.pem'',
          CallNewDeviceID ''DER-new'',
          Println [Str ''Device ID:'', Dev ''ID-DER-new''],
          CallLoad ''/srv/st/config.xml'' ''ID-DER-new'',
          CallServe, CallModify, CallWait, CallSave stored_config, CallCancel])"
  by (simp add: example_defs Generate_defs)

subsection \<open>The configuration\<close>

text \<open>
  C6. When the identity is there and the configuration loader fails with error
  \<open>e\<close>: if \<open>fs.IsNotExist e\<close>, \<open>Generate\<close> calls \<open>syncthing.DefaultConfig\<close> with the
  configuration file, the derived device identifier and the two switches exactly as
  \<open>Generate\<close> received them, and goes on with the configuration it returns;
  otherwise \<open>Generate\<close> returns \<open>e\<close> with the label \<open>load config\<close>, and its events end
  with the call of the loader (no default is built). The identifier is
  \<open>protocol.NewDeviceID\<close> of the first certificate of the chain.
\<close>

theorem Generate_config_bootstrap:
  assumes "fs_ExpandTilde w confDir = Inr dir"
    and "syncthing_EnsureDir w dir = None"
    and "Generate_identity w dir = (Inr myID, ti)"
    and "config_Load w (locations_Get w dir ConfigFile) myID = Inl e"
  shows "(fs_IsNotExist w e \<longrightarrow>
            CallDefaultConfig (locations_Get w dir ConfigFile) myID noDefaultFolder skipPortProbing
              \<in> set (snd (Generate w confDir guiUser guiPassword noDefaultFolder skipPortProbing))
            \<and> (\<forall>e'. syncthing_DefaultConfig w (locations_Get w dir ConfigFile) myID
                        noDefaultFolder skipPortProbing = Inl e'
                  \<longrightarrow> fst (Generate w confDir guiUser guiPassword noDefaultFolder skipPortProbing)
                      = Some (Errorf ''create config'' e'))
            \<and> (\<forall>cfg. syncthing_DefaultConfig w (locations_Get w dir ConfigFile) myID
                        noDefaultFolder skipPortProbing = Inr cfg
                  \<longrightarrow> Generate w confDir guiUser guiPassword noDefaultFolder skipPortProbing
                      = (fst (Generate_modify w cfg guiUser guiPassword),
                         [CallExpandTilde confDir, CallEnsureDir dir, CallSetBaseDir dir] @ ti
                           @ [CallLoad (locations_Get w dir ConfigFile) myID,
                              CallDefaultConfig (locations_Get w dir ConfigFile) myID
                                noDefaultFolder skipPortProbing]
                           @ snd (Generate_modify w cfg guiUser guiPassword))))
    \<and> (\<not> fs_IsNotExist w e \<longrightarrow>
            Generate w confDir guiUser guiPassword noDefaultFolder skipPortProbing
              = (Some (Errorf ''load config'' e),
                 [CallExpandTilde confDir, CallEnsureDir dir, CallSetBaseDir dir] @ ti
                   @ [CallLoad (locations_Get w dir ConfigFile) myID]))
    \<and> (\<exists>cert der rest.
          fst (loadOrGenerate w (locations_Get w dir CertFile) (locations_Get w dir KeyFile)) = Inr cert
          \<and> Certificate cert = der # rest \<and> myID = protocol_NewDeviceID w der)"
  using assms(4) Generate_identity_derived [OF assms(3)]
  by (auto simp: Generate_reaches_config [OF assms(1-3)] Generate_from_identity_def
      Generate_config_def case_prod_beta split: sum.splits)

theorem Generate_config_bootstrap_witness:
  "fs_ExpandTilde fresh_config_world ''/srv/st'' = Inr ''/srv/st''
   \<and> syncthing_EnsureDir fresh_config_world ''/srv/st'' = None
   \<and> Generate_identity fresh_config_world ''/srv/st''
      = (Inr ''ID-DER-old'',
         [CallLoadX509KeyPair ''/srv/st/cert.pem'' ''/srv/st/key.pem'',
          Println [Str ''WARNING: Key exists; will not overwrite.''],
          CallNewDeviceID ''DER-old'',
          Println [Str ''Device ID:'', Dev ''ID-DER-old'']])
   \<and> config_Load fresh_config_world (locations_Get fresh_config_world ''/srv/st'' ConfigFile)
        ''ID-DER-old'' = Inl (Error ''no such file or directory'')
   \<and> fs_IsNotExist fresh_config_world (Error ''no such file or directory'')
   \<and> CallDefaultConfig ''/srv/st/config.xml'' ''ID-DER-old'' True False
        \<in> set (snd (Generate fresh_config_world ''/srv/st'' ''bob'' [] True False))"
proof -
  have a: "fs_ExpandTilde fresh_config_world ''/srv/st'' = Inr ''/srv/st''"
    by (simp add: example_defs)
  have b: "syncthing_EnsureDir fresh_config_world ''/srv/st'' = None"
    by (simp add: example_defs)
  have c: "Generate_identity fresh_config_world ''/srv/st''
      = (Inr ''ID-DER-old'',
         [CallLoadX509KeyPair ''/srv/st/cert.pem'' ''/srv/st/key.pem'',
          Println [Str ''WARNING: Key exists; will not overwrite.''],
          CallNewDeviceID ''DER-old'',
          Println [Str ''Device ID:'', Dev ''ID-DER-old'']])"
    by (simp add: example_defs Generate_identity_def loadOrGenerate_def)
  have d: "config_Load fresh_config_world (locations_Get fresh_config_world ''/srv/st'' ConfigFile)
        ''ID-DER-old'' = Inl (Error ''no such file or directory'')"
    by (simp add: example_defs)
  have e: "fs_IsNotExist fresh_config_world (Error ''no such file or directory'')"
    by (simp add: example_defs)
  have p: "locations_Get fresh_config_world ''/srv/st'' ConfigFile = ''/srv/st/config.xml''"
    by (simp add: example_defs)
  from Generate_config_bootstrap [OF a b c d, of True False "''bob''" "[]"] e
  have "CallDefaultConfig (locations_Get fresh_config_world ''/srv/st'' ConfigFile)
           ''ID-DER-old'' True False
        \<in> set (snd (Generate fresh_config_world ''/srv/st'' ''bob'' [] True False))"
    by blast
  then show ?thesis
    using a b c d e unfolding p by simp
qed

text \<open>
  The second half at work: a configuration file that does not parse.
\<close>

lemma Generate_broken_config_example:
  "Generate broken_config_world ''/srv/st'' ''bob'' [] True False
     = (Some (Errorf ''load config'' (Error ''XML syntax error'')),
        [CallExpandTilde ''/srv/st'', CallEnsureDir ''/srv/st'', CallSetBaseDir ''/srv/st'',
         CallLoadX509KeyPair ''/srv/st/cert.pem'' ''/srv/st/key.pem'',
         Println [Str ''WARNING: Key exists; will not overwrite.''],
         CallNewDeviceID ''DER-old'',
         Println [Str ''Device ID:'', Dev ''ID-DER-old''],
         CallLoad ''/srv/st/config.xml'' ''ID-DER-old''])"
  by (simp add: example_defs Generate_defs)

subsection \<open>A failing hasher\<close>

lemma updateGUIAuthentication_hash_failure:
  assumes "guiPassword \<noteq> []" and "guiPassword \<noteq> Password guiCfg"
    and "hash guiPassword = Inl e"
  shows "updateGUIAuthentication hash guiCfg guiUser guiPassword
     = (Some (Errorf ''failed to set GUI authentication password'' e),
        fst (updateUser guiCfg guiUser),
        snd (updateUser guiCfg guiUser) @ [CallHashAndSetPassword guiPassword])"
  using assms
  by (auto simp: updateGUIAuthentication_def updateUser_def updatePassword_def
      HashAndSetPassword_def)

lemma Generate_modify_hash_failure:
  assumes "guiPassword \<noteq> []" and "guiPassword \<noteq> Password (GUI cfg)"
    and "bcrypt_hash w guiPassword = Inl e"
  shows "(\<forall>c. CallSave c \<notin> set (snd (Generate_modify w cfg guiUser guiPassword)))
    \<and> (cfg_Modify w = Applied \<longrightarrow>
         fst (Generate_modify w cfg guiUser guiPassword)
           = Some (Errorf ''failed to set GUI authentication password'' e))
    \<and> (\<forall>e'. cfg_Modify w = AppliedThenFailed e' \<or> cfg_Modify w = Rejected e' \<longrightarrow>
         fst (Generate_modify w cfg guiUser guiPassword) = Some (Errorf ''modify config'' e'))"
proof -
  note u = updateGUIAuthentication_hash_failure
    [where hash = "bcrypt_hash w" and guiCfg = "GUI cfg" and guiUser = guiUser, OF assms]
  have n: "\<And>c. CallSave c \<notin> set (snd (updateUser (GUI cfg) guiUser))"
    by (simp add: updateUser_def)
  show ?thesis
    using n by (cases "cfg_Modify w") (simp_all add: Generate_modify_def u)
qed

lemma Generate_reaches_modify:
  assumes "fs_ExpandTilde w confDir = Inr dir"
    and "syncthing_EnsureDir w dir = None"
    and "Generate_identity w dir = (Inr myID, ti)"
    and "Generate_config w (locations_Get w dir ConfigFile) myID noDefaultFolder skipPortProbing
           = (Inr cfg, tc)"
  shows "Generate w confDir guiUser guiPassword noDefaultFolder skipPortProbing
     = (fst (Generate_modify w cfg guiUser guiPassword),
        [CallExpandTilde confDir, CallEnsureDir dir, CallSetBaseDir dir] @ ti @ tc
          @ snd (Generate_modify w cfg guiUser guiPassword))"
  using assms
  by (simp add: Generate_def Generate_in_dir_def Generate_from_identity_def case_prod_beta)

text \<open>
  C3 as stated does not hold. In \<open>failing_modify_world\<close> the hasher fails, so the
  mutation fails with a hashing error (the closure was run: the hasher was called),
  but \<open>cfg.Modify\<close> returns an error of its own, and line 110 returns that one,
  labelled \<open>modify config\<close>, before \<open>updateErr\<close> is looked at: \<open>Generate\<close> does not
  return the hashing error.
\<close>

theorem Generate_hash_failure_modify_error_counterexample:
  "bcrypt_hash failing_modify_world ''abc123'' = Inl (Error ''bcrypt: out of memory'')
   \<and> fst (updateGUIAuthentication (bcrypt_hash failing_modify_world) (GUI stored_config)
            ''bob'' ''abc123'')
      = Some (Errorf ''failed to set GUI authentication password'' (Error ''bcrypt: out of memory''))
   \<and> Generate failing_modify_world ''/srv/st'' ''bob'' ''abc123'' False False
      = (Some (Errorf ''modify config'' (Error ''config rejected'')),
         [CallExpandTilde ''/srv/st'', CallEnsureDir ''/srv/st'', CallSetBaseDir ''/srv/st'',
          CallLoadX509KeyPair ''/srv/st/cert.pem'' ''/srv/st/key.pem'',
          Println [Str ''WARNING: Key exists; will not overwrite.''],
          CallNewDeviceID ''DER-old'',
          Println [Str ''Device ID:'', Dev ''ID-DER-old''],
          CallLoad ''/srv/st/config.xml'' ''ID-DER-old'',
          CallServe, CallModify,
          Println [Str ''Updated GUI authentication user name:'', Str ''bob''],
          CallHashAndSetPassword ''abc123'',
          CallCancel])"
  by (simp add: example_defs Generate_defs)

text \<open>
  C3 (amended). When \<open>Generate\<close> has its configuration and the password must be
  rehashed (non-empty, different from the stored \<open>Password\<close>) and the hasher fails
  with \<open>e\<close>: \<open>cfg.Save\<close> is never called, and \<open>Generate\<close> returns an error. When
  \<open>cfg.Modify\<close> returned its waiter and no error, that error is the one
  \<open>updateGUIAuthentication\<close> returned, \<open>e\<close> under the label
  \<open>failed to set GUI authentication password\<close>, with no label added by \<open>Generate\<close>.
  When \<open>cfg.Modify\<close> itself returned an error, \<open>Generate\<close> returns that error under the
  label \<open>modify config\<close>.
\<close>

theorem Generate_hash_failure_not_saved:
  assumes "fs_ExpandTilde w confDir = Inr dir"
    and "syncthing_EnsureDir w dir = None"
    and "Generate_identity w dir = (Inr myID, ti)"
    and "Generate_config w (locations_Get w dir ConfigFile) myID noDefaultFolder skipPortProbing
           = (Inr cfg, tc)"
    and "guiPassword \<noteq> []" and "guiPassword \<noteq> Password (GUI cfg)"
    and "bcrypt_hash w guiPassword = Inl e"
  shows "(\<forall>c. CallSave c
            \<notin> set (snd (Generate w confDir guiUser guiPassword noDefaultFolder skipPortProbing)))
    \<and> (cfg_Modify w = Applied \<longrightarrow>
         fst (Generate w confDir guiUser guiPassword noDefaultFolder skipPortProbing)
           = Some (Errorf ''failed to set GUI authentication password'' e))
    \<and> (\<forall>e'. cfg_Modify w = AppliedThenFailed e' \<or> cfg_Modify w = Rejected e' \<longrightarrow>
         fst (Generate w confDir guiUser guiPassword noDefaultFolder skipPortProbing)
           = Some (Errorf ''modify config'' e'))"
proof -
  have ti: "\<And>c. CallSave c \<notin> set ti"
    using Generate_identity_no_save [of _ w dir] assms(3) by simp
  have tc: "\<And>c. CallSave c \<notin> set tc"
    using Generate_config_no_save [of _ w "locations_Get w dir ConfigFile" myID
        noDefaultFolder skipPortProbing] assms(4) by simp
  show ?thesis
    using Generate_modify_hash_failure [OF assms(5-7), of guiUser] ti tc
    by (simp add: Generate_reaches_modify [OF assms(1-4)])
qed

theorem Generate_hash_failure_not_saved_witness:
  "fs_ExpandTilde failing_hash_world ''/srv/st'' = Inr ''/srv/st''
   \<and> syncthing_EnsureDir failing_hash_world ''/srv/st'' = None
   \<and> Generate_identity failing_hash_world ''/srv/st''
      = (Inr ''ID-DER-old'',
         [CallLoadX509KeyPair ''/srv/st/cert.pem'' ''/srv/st/key.pem'',
          Println [Str ''WARNING: Key exists; will not overwrite.''],
          CallNewDeviceID ''DER-old'',
          Println [Str ''Device ID:'', Dev ''ID-DER-old'']])
   \<and> Generate_config failing_hash_world (locations_Get failing_hash_world ''/srv/st'' ConfigFile)
        ''ID-DER-old'' False False
      = (Inr stored_config, [CallLoad ''/srv/st/config.xml'' ''ID-DER-old''])
   \<and> ''abc123'' \<noteq> [] \<and> ''abc123'' \<noteq> Password (GUI stored_config)
   \<and> bcrypt_hash failing_hash_world ''abc123'' = Inl (Error ''bcrypt: out of memory'')
   \<and> cfg_Modify failing_hash_world = Applied
   \<and> (\<forall>c. CallSave c
         \<notin> set (snd (Generate failing_hash_world ''/srv/st'' ''bob'' ''abc123'' False False)))
   \<and> fst (Generate failing_hash_world ''/srv/st'' ''bob'' ''abc123'' False False)
      = Some (Errorf ''failed to set GUI authentication password'' (Error ''bcrypt: out of memory''))"
proof -
  have a: "fs_ExpandTilde failing_hash_world ''/srv/st'' = Inr ''/srv/st''"
    by (simp add: example_defs)
  have b: "syncthing_EnsureDir failing_hash_world ''/srv/st'' = None"
    by (simp add: example_defs)
  have c: "Generate_identity failing_hash_world ''/srv/st''
      = (Inr ''ID-DER-old'',
         [CallLoadX509KeyPair ''/srv/st/cert.pem'' ''/srv/st/key.pem'',
          Println [Str ''WARNING: Key exists; will not overwrite.''],
          CallNewDeviceID ''DER-old'',
          Println [Str ''Device ID:'', Dev ''ID-DER-old'']])"
    by (simp add: example_defs Generate_identity_def loadOrGenerate_def)
  have d: "Generate_config failing_hash_world (locations_Get failing_hash_world ''/srv/st'' ConfigFile)
        ''ID-DER-old'' False False
      = (Inr stored_config, [CallLoad ''/srv/st/config.xml'' ''ID-DER-old''])"
    by (simp add: failing_hash_world_def settled_world_def paths_def Generate_config_def)
  have e: "''abc123'' \<noteq> []" by simp
  have f: "''abc123'' \<noteq> Password (GUI stored_config)"
    by (simp add: stored_config_def)
  have g: "bcrypt_hash failing_hash_world ''abc123'' = Inl (Error ''bcrypt: out of memory'')"
    by (simp add: example_defs)
  have m: "cfg_Modify failing_hash_world = Applied"
    by (simp add: example_defs)
  show ?thesis
    using a b c d e f g m
      Generate_hash_failure_not_saved [OF a b c d e f g, of "''bob''"]
    by simp
qed

subsection \<open>Wait, then save\<close>

lemma Generate_modify_save_last:
  assumes "CallSave c \<in> set (snd (Generate_modify w cfg guiUser guiPassword))"
  shows "\<exists>pre. snd (Generate_modify w cfg guiUser guiPassword) = pre @ [CallWait, CallSave c, CallCancel]
           \<and> CallModify \<in> set pre \<and> (\<forall>c'. CallSave c' \<notin> set pre)"
proof -
  obtain updateErr gui' tu where
    u: "updateGUIAuthentication (bcrypt_hash w) (GUI cfg) guiUser guiPassword = (updateErr, gui', tu)"
    by (cases "updateGUIAuthentication (bcrypt_hash w) (GUI cfg) guiUser guiPassword")
  have tu: "\<And>c'. CallSave c' \<notin> set tu"
    using updateGUIAuthentication_no_save [of _ "bcrypt_hash w" "GUI cfg" guiUser guiPassword] u
    by simp
  from assms tu have
    "snd (Generate_modify w cfg guiUser guiPassword)
       = ([CallServe, CallModify] @ tu) @ [CallWait, CallSave c, CallCancel]"
    by (auto simp: Generate_modify_def u split: modify_outcome.splits option.splits)
  moreover have "CallModify \<in> set ([CallServe, CallModify] @ tu)"
    by simp
  moreover have "\<forall>c'. CallSave c' \<notin> set ([CallServe, CallModify] @ tu)"
    using tu by simp
  ultimately show ?thesis by blast
qed

lemma save_last_prepend:
  assumes "\<And>c'. CallSave c' \<notin> set xs"
    and "\<exists>pre. t = pre @ [CallWait, CallSave c, CallCancel]
           \<and> CallModify \<in> set pre \<and> (\<forall>c'. CallSave c' \<notin> set pre)"
  shows "\<exists>pre. xs @ t = pre @ [CallWait, CallSave c, CallCancel]
           \<and> CallModify \<in> set pre \<and> (\<forall>c'. CallSave c' \<notin> set pre)"
proof -
  from assms(2) obtain pre where
    p: "t = pre @ [CallWait, CallSave c, CallCancel]" "CallModify \<in> set pre"
       "\<forall>c'. CallSave c' \<notin> set pre"
    by blast
  have "xs @ t = (xs @ pre) @ [CallWait, CallSave c, CallCancel]"
    using p(1) by simp
  moreover have "CallModify \<in> set (xs @ pre)" using p(2) by simp
  moreover have "\<forall>c'. CallSave c' \<notin> set (xs @ pre)" using p(3) assms(1) by simp
  ultimately show ?thesis by blast
qed

lemma Generate_from_identity_save_last:
  assumes "CallSave c \<in> set (snd (Generate_from_identity w dir myID guiUser guiPassword a b))"
  shows "\<exists>pre. snd (Generate_from_identity w dir myID guiUser guiPassword a b)
             = pre @ [CallWait, CallSave c, CallCancel]
           \<and> CallModify \<in> set pre \<and> (\<forall>c'. CallSave c' \<notin> set pre)"
proof (cases "fst (Generate_config w (locations_Get w dir ConfigFile) myID a b)")
  case (Inl err)
  then have "snd (Generate_from_identity w dir myID guiUser guiPassword a b)
      = snd (Generate_config w (locations_Get w dir ConfigFile) myID a b)"
    by (simp add: Generate_from_identity_def case_prod_beta)
  with assms Generate_config_no_save show ?thesis by simp
next
  case (Inr cfg)
  then have s: "snd (Generate_from_identity w dir myID guiUser guiPassword a b)
      = snd (Generate_config w (locations_Get w dir ConfigFile) myID a b)
        @ snd (Generate_modify w cfg guiUser guiPassword)"
    by (simp add: Generate_from_identity_def case_prod_beta)
  with assms Generate_config_no_save
  have "CallSave c \<in> set (snd (Generate_modify w cfg guiUser guiPassword))"
    by simp
  from save_last_prepend [OF Generate_config_no_save Generate_modify_save_last [OF this]]
  show ?thesis unfolding s .
qed

lemma Generate_in_dir_save_last:
  assumes "CallSave c \<in> set (snd (Generate_in_dir w dir guiUser guiPassword a b))"
  shows "\<exists>pre. snd (Generate_in_dir w dir guiUser guiPassword a b)
             = pre @ [CallWait, CallSave c, CallCancel]
           \<and> CallModify \<in> set pre \<and> (\<forall>c'. CallSave c' \<notin> set pre)"
proof (cases "fst (Generate_identity w dir)")
  case (Inl err)
  then have "snd (Generate_in_dir w dir guiUser guiPassword a b) = snd (Generate_identity w dir)"
    by (simp add: Generate_in_dir_def case_prod_beta)
  with assms Generate_identity_no_save show ?thesis by simp
next
  case (Inr myID)
  then have s: "snd (Generate_in_dir w dir guiUser guiPassword a b)
      = snd (Generate_identity w dir)
        @ snd (Generate_from_identity w dir myID guiUser guiPassword a b)"
    by (simp add: Generate_in_dir_def case_prod_beta)
  with assms Generate_identity_no_save
  have "CallSave c \<in> set (snd (Generate_from_identity w dir myID guiUser guiPassword a b))"
    by simp
  from save_last_prepend [OF Generate_identity_no_save Generate_from_identity_save_last [OF this]]
  show ?thesis unfolding s .
qed

text \<open>
  C4. In every run of \<open>Generate\<close>, a call of \<open>cfg.Save\<close> comes directly after the
  call of \<open>waiter.Wait\<close>, which comes after the call of \<open>cfg.Modify\<close> and the closure's
  events; nothing before it is a call of \<open>Save\<close>, and only the deferred \<open>cancel\<close>
  follows it. The closure itself, \<open>updateGUIAuthentication\<close>, never calls \<open>Save\<close>.
\<close>

theorem Generate_save_only_after_wait:
  "(\<forall>c. CallSave c \<in> set (snd (Generate w confDir guiUser guiPassword noDefaultFolder skipPortProbing))
      \<longrightarrow> (\<exists>pre. snd (Generate w confDir guiUser guiPassword noDefaultFolder skipPortProbing)
                   = pre @ [CallWait, CallSave c, CallCancel]
                 \<and> CallModify \<in> set pre \<and> (\<forall>c'. CallSave c' \<notin> set pre)))
   \<and> (\<forall>c. CallSave c
         \<notin> set (snd (snd (updateGUIAuthentication (bcrypt_hash w) guiCfg guiUser guiPassword))))"
proof (intro conjI allI impI)
  fix c
  assume a: "CallSave c \<in> set (snd (Generate w confDir guiUser guiPassword noDefaultFolder skipPortProbing))"
  show "\<exists>pre. snd (Generate w confDir guiUser guiPassword noDefaultFolder skipPortProbing)
                   = pre @ [CallWait, CallSave c, CallCancel]
                 \<and> CallModify \<in> set pre \<and> (\<forall>c'. CallSave c' \<notin> set pre)"
  proof (cases "fs_ExpandTilde w confDir")
    case (Inl err)
    with a show ?thesis by (simp add: Generate_def)
  next
    case (Inr dir)
    show ?thesis
    proof (cases "syncthing_EnsureDir w dir")
      case (Some err)
      with a Inr show ?thesis by (simp add: Generate_def)
    next
      case None
      with Inr have s: "snd (Generate w confDir guiUser guiPassword noDefaultFolder skipPortProbing)
         = [CallExpandTilde confDir, CallEnsureDir dir, CallSetBaseDir dir]
           @ snd (Generate_in_dir w dir guiUser guiPassword noDefaultFolder skipPortProbing)"
        by (simp add: Generate_def case_prod_beta)
      with a have "CallSave c
          \<in> set (snd (Generate_in_dir w dir guiUser guiPassword noDefaultFolder skipPortProbing))"
        by simp
      from save_last_prepend [OF _ Generate_in_dir_save_last [OF this],
          of "[CallExpandTilde confDir, CallEnsureDir dir, CallSetBaseDir dir]"]
      show ?thesis unfolding s by simp
    qed
  qed
next
  fix c
  show "CallSave c
         \<notin> set (snd (snd (updateGUIAuthentication (bcrypt_hash w) guiCfg guiUser guiPassword)))"
    by (rule updateGUIAuthentication_no_save)
qed

theorem Generate_save_only_after_wait_witness:
  "CallSave \<lparr>GUI = \<lparr>User = ''admin'', Password = ''$2a$10$abc123''\<rparr>\<rparr>
     \<in> set (snd (Generate settled_world ''/srv/st'' ''admin'' ''abc123'' False False))
   \<and> (\<exists>pre. snd (Generate settled_world ''/srv/st'' ''admin'' ''abc123'' False False)
              = pre @ [CallWait, CallSave \<lparr>GUI = \<lparr>User = ''admin'', Password = ''$2a$10$abc123''\<rparr>\<rparr>,
                       CallCancel]
            \<and> CallModify \<in> set pre \<and> (\<forall>c'. CallSave c' \<notin> set pre))"
proof -
  have m: "CallSave \<lparr>GUI = \<lparr>User = ''admin'', Password = ''$2a$10$abc123''\<rparr>\<rparr>
     \<in> set (snd (Generate settled_world ''/srv/st'' ''admin'' ''abc123'' False False))"
    by (simp add: example_defs Generate_defs)
  from Generate_save_only_after_wait
    [where w = settled_world and confDir = "''/srv/st''" and guiUser = "''admin''"
       and guiPassword = "''abc123''" and noDefaultFolder = False and skipPortProbing = False
       and guiCfg = "GUI stored_config"]
    m
  show ?thesis by blast
qed

section \<open>Properties of CLI.Run\<close>

text \<open>
  C9. When both \<open>HomeDir\<close> and \<open>ConfDir\<close> are non-empty, \<open>Run\<close> returns the error
  \<open>--home must not be used together with --config\<close>, leaves the receiver as it was,
  and has done nothing but \<open>log.SetFlags\<close> and, if asked, \<open>osutil.HideConsole\<close>: no
  read of standard input and no call of \<open>Generate\<close>.
\<close>

theorem Run_conflicting_options:
  assumes "HomeDir c \<noteq> []" and "ConfDir c \<noteq> []"
  shows "Run w c
     = (Some (Error ''--home must not be used together with --config''), c,
        CallSetFlags # (if HideConsole c then [CallHideConsole] else []))"
  using assms by (simp add: Run_def resolveConfDir_def)

theorem Run_conflicting_options_witness:
  "HomeDir conflicting_cli \<noteq> [] \<and> ConfDir conflicting_cli \<noteq> []
   \<and> Run closed_stdin_world conflicting_cli
      = (Some (Error ''--home must not be used together with --config''), conflicting_cli,
         [CallSetFlags])"
proof -
  have a: "HomeDir conflicting_cli \<noteq> []" by (simp add: example_defs)
  have b: "ConfDir conflicting_cli \<noteq> []" by (simp add: example_defs)
  have h: "\<not> HideConsole conflicting_cli" by (simp add: example_defs)
  show ?thesis
    using a b h Run_conflicting_options [OF a b, of closed_stdin_world] by simp
qed

subsection \<open>What ReadLine returns\<close>






text \<open>
  Some bytes, no line feed, fewer than the buffer holds: they come back as the
  line and the error of the input is dropped.
\<close>

lemma ReadLine_unterminated:
  assumes "content inp \<noteq> []" and "LF \<notin> set (content inp)" and "length (content inp) < n"
  shows "ReadLine n inp = (content inp, False, None)"
proof -
  have t: "takeWhile (\<lambda>c. c \<noteq> LF) (content inp) = content inp"
    using assms(2) by (auto simp: takeWhile_eq_all_conv)
  have l: "last (content inp) \<noteq> LF"
    using assms(1,2) last_in_set by metis
  have "ReadSlice n inp = (content inp, ReadError (read_error inp))"
    using assms(3) by (simp add: ReadSlice_def t)
  then show ?thesis
    using assms(1) l by (simp add: ReadLine_def dropLineEnd_def)
qed

subsection \<open>The password\<close>






text \<open>
  Standard input closed: the read fails and \<open>Run\<close> stops.
\<close>

lemma Run_closed_stdin_example:
  "Run closed_stdin_world piped_password_cli
     = (Some (Errorf ''failed reading GUI password'' (Error ''EOF'')),
        piped_password_cli\<lparr>ConfDir := ''/srv/st''\<rparr>,
        [CallSetFlags, CallReadLine])"
  by (simp add: example_defs Run_defs ReadLine_defs)

end
